theory Spec2Isabelle
  imports Complex_Main
begin

section \<open>The event dispatcher of \<^verbatim>\<open>src/common/Action.ts\<close>\<close>

text \<open>
  The abstract class \<^verbatim>\<open>Action\<close> is embedded as pure functions over a record
  \<open>world\<close>: the ambient event context together with the behaviour, in this run, of every
  collaborator the class calls (configuration reader, identity provider, handler hooks of
  the subclass, error-reporting channel, telemetry sink, usage accounting). A call that
  may throw returns the thrown value; every function returns, besides its outcome, the
  list of outward calls it made, in order.
\<close>

subsection \<open>Values thrown and caught\<close>

text \<open>
  A thrown value is an \<^verbatim>\<open>Error\<close> object, as the signature
  \<^verbatim>\<open>error(error: Error)\<close> declares: its \<^verbatim>\<open>message\<close>, its optional
  \<^verbatim>\<open>stack\<close> and what \<^verbatim>\<open>String(e)\<close> yields.
\<close>

datatype js_error = JsError (message: string) (stack: "string option") (stringified: string)

subsection \<open>The event context\<close>

record repo_id =
  owner :: string
  repo :: string

text \<open>\<^verbatim>\<open>errorLoggingIssue\<close> is destructured as \<^verbatim>\<open>{ repo, issue, owner }\<close>.\<close>

record error_logging_issue = repo_id +
  issue :: nat

text \<open>
  The fields of \<^verbatim>\<open>context.payload\<close> that the class reads. \<open>payload_issue\<close> is
  \<^verbatim>\<open>context.payload.issue?.number\<close>: \<open>None\<close> when the payload has no issue object
  (or that object has no number). \<open>comment_body\<close>, \<open>label_name\<close> and
  \<open>assignee_login\<close> are \<^verbatim>\<open>context.payload.comment.body\<close>,
  \<^verbatim>\<open>context.payload.label.name\<close> and \<^verbatim>\<open>context.payload.assignee.login\<close>:
  \<open>None\<close> when the payload has no such object, so that reading the property throws.
  Issue numbers are natural numbers.
\<close>

record payload =
  payload_action :: string
  payload_issue :: "nat option"
  comment_body :: "string option"
  label_name :: "string option"
  assignee_login :: "string option"

text \<open>
  \<open>issue_number\<close> is \<^verbatim>\<open>context.issue.number\<close>, a field of its own, read apart from
  \<open>payload_issue\<close>; \<open>None\<close> is \<^verbatim>\<open>undefined\<close>.
\<close>

record event_context =
  eventName :: string
  actor :: string
  ctx_repo :: repo_id
  issue_number :: "nat option"
  ctx_payload :: payload

subsection \<open>Clients, hooks, telemetry\<close>

text \<open>
  A client is the data it is constructed from: token, repository, for an issue-scoped
  client the issue number, and the read-only flag. A hook call is the method with its
  arguments. Metric values are JavaScript numbers that the class only passes on.
\<close>

datatype client =
  OctoKit string repo_id bool
| OctoKitIssue string repo_id nat bool

datatype hook_call =
  OnTriggered client
| OnEdited client
| OnLabeled client string
| OnAssigned client string
| OnUnassigned client string
| OnOpened client
| OnReopened client
| OnClosed client
| OnMilestoned client
| OnCommented client string string

record telemetry =
  metric_name :: string
  metric_value :: real

record metric = telemetry +
  prop_repo :: string
  prop_issue :: string
  prop_id :: string
  prop_user :: string

record sink =
  sink_trackMetric :: "metric \<Rightarrow> js_error option"
  sink_trackException :: "js_error \<Rightarrow> js_error option"

record usage =
  core :: real
  graphql :: real
  search :: real

subsection \<open>Outward calls\<close>

datatype event =
  ConsoleLog string
| GetAuthenticated string
| SafeLog string
| New client
| Hook hook_call
| LogErrorToIssue string bool string
| TrackException js_error
| SetFailed string
| TrackMetric metric
| GetRateLimit string

subsection \<open>The world of one run\<close>

text \<open>
  The imports of \<^verbatim>\<open>Action.ts\<close> are parameters. A call that can throw yields
  \<open>Inl e\<close> or \<open>Some e\<close> for the thrown \<open>e\<close>. \<open>hook\<close> is the behaviour of the
  subclass's handler methods; \<open>stackTrace\<close> is the stack the runtime records for an
  \<^verbatim>\<open>Error\<close> created with the given message; \<open>typeError\<close> is the
  \<^verbatim>\<open>TypeError\<close> the runtime throws when the named property is read from
  \<^verbatim>\<open>undefined\<close>.
\<close>

record world =
  ctx :: event_context
  getRequiredInput :: "string \<Rightarrow> js_error + string"
  getInput :: "string \<Rightarrow> string"
  errorLoggingIssue :: "error_logging_issue option"
  aiHandle :: "sink option"
  getAuthenticated :: "string \<Rightarrow> js_error + string"
  hook :: "hook_call \<Rightarrow> js_error option"
  logErrorToIssue :: "string \<Rightarrow> bool \<Rightarrow> string \<Rightarrow> js_error option"
  getNumRequests :: real
  getRateLimit :: "string \<Rightarrow> js_error + usage"
  uuid :: string
  stackTrace :: "string \<Rightarrow> string"
  typeError :: "string \<Rightarrow> js_error"

text \<open>The object: the subclass's \<^verbatim>\<open>id\<close>, the settled \<^verbatim>\<open>username\<close> promise, the token.\<close>

record action =
  action_id :: string
  username :: string
  token :: string

type_synonym effect = "js_error option \<times> event list"

text \<open>Sequencing of two awaited steps: the second runs only if the first did not throw.\<close>

definition andThen :: "effect \<Rightarrow> effect \<Rightarrow> effect" where
  "andThen p q = (case fst p of Some e \<Rightarrow> p | None \<Rightarrow> (fst q, snd p @ snd q))"

subsection \<open>JavaScript conversions\<close>

text \<open>\<^verbatim>\<open>Error(msg)\<close>: a fresh error object.\<close>

definition new_Error :: "world \<Rightarrow> string \<Rightarrow> js_error" where
  "new_Error w msg =
     JsError msg (Some (stackTrace w msg)) (if msg = [] then ''Error'' else ''Error: '' @ msg)"

text \<open>Decimal rendering of a number, and \<^verbatim>\<open>'' + context.issue.number\<close>.\<close>

fun show_nat :: "nat \<Rightarrow> string" where
  "show_nat n =
     (if n < 10 then [''0123456789'' ! n]
      else show_nat (n div 10) @ [''0123456789'' ! (n mod 10)])"

declare show_nat.simps [simp del]

definition show_number :: "nat option \<Rightarrow> string" where
  "show_number v = (case v of None \<Rightarrow> ''undefined'' | Some n \<Rightarrow> show_nat n)"

text \<open>Truthiness of an optional number (\<^verbatim>\<open>if (issue)\<close>) and of an optional string.\<close>

definition truthy_number :: "nat option \<Rightarrow> bool" where
  "truthy_number v = (case v of None \<Rightarrow> False | Some n \<Rightarrow> n \<noteq> 0)"

definition show_string :: "string option \<Rightarrow> string" where
  "show_string v = (case v of None \<Rightarrow> ''undefined'' | Some s \<Rightarrow> s)"

subsection \<open>Constructor (lines 16 to 25)\<close>

definition constructor :: "world \<Rightarrow> string \<Rightarrow> (js_error + action) \<times> event list" where
  "constructor w i =
     (case getRequiredInput w ''token'' of
        Inl e \<Rightarrow> (Inl e, [])
      | Inr tok \<Rightarrow>
          (Inr \<lparr> action_id = i,
                 username = (case getAuthenticated w tok of
                               Inr v \<Rightarrow> v
                             | Inl _ \<Rightarrow> ''unknown''),
                 token = tok \<rparr>,
           [ConsoleLog (''::stop-commands::'' @ uuid w), GetAuthenticated tok]))"

subsection \<open>trackMetric (lines 27 to 39)\<close>

definition properties :: "world \<Rightarrow> action \<Rightarrow> telemetry \<Rightarrow> metric" where
  "properties w a t =
     \<lparr> metric_name = metric_name t, metric_value = metric_value t,
       prop_repo = owner (ctx_repo (ctx w)) @ ''/'' @ repo (ctx_repo (ctx w)),
       prop_issue = show_number (issue_number (ctx w)),
       prop_id = action_id a,
       prop_user = username a \<rparr>"

definition trackMetric :: "world \<Rightarrow> action \<Rightarrow> telemetry \<Rightarrow> effect" where
  "trackMetric w a t =
     (case aiHandle w of
        None \<Rightarrow> (None, [])
      | Some h \<Rightarrow> (sink_trackMetric h (properties w a t), [TrackMetric (properties w a t)]))"

subsection \<open>error (lines 111 to 134)\<close>

text \<open>
  The template literal of lines 120 to 126 renders \<^verbatim>\<open>details.message\<close> (message,
  newline, stack), \<^verbatim>\<open>details.user\<close> and \<^verbatim>\<open>details.id\<close>; the field
  \<^verbatim>\<open>details.issue\<close> of line 118 is set and never read.
\<close>

definition rendered :: "action \<Rightarrow> js_error \<Rightarrow> string" where
  "rendered a e =
     [CHR 0x0A] @ ''Message: '' @ message e @ [CHR 0x0A] @ show_string (stack e)
     @ [CHR 0x0A, CHR 0x0A] @ ''Actor: '' @ username a
     @ [CHR 0x0A, CHR 0x0A] @ ''ID: '' @ action_id a @ [CHR 0x0A]"

definition error :: "world \<Rightarrow> action \<Rightarrow> js_error \<Rightarrow> effect" where
  "error w a e =
     andThen (logErrorToIssue w (rendered a e) True (token a),
              [LogErrorToIssue (rendered a e) True (token a)])
    (andThen (case aiHandle w of
                None \<Rightarrow> (None, [])
              | Some h \<Rightarrow> (sink_trackException h e, [TrackException e]))
             (None, [SetFailed (message e)]))"

subsection \<open>run (lines 41 to 109)\<close>

text \<open>The guard of lines 42 to 48.\<close>

definition refuses :: "world \<Rightarrow> bool" where
  "refuses w =
     (case errorLoggingIssue w of
        None \<Rightarrow> False
      | Some eli \<Rightarrow>
          repo (ctx_repo (ctx w)) = repo eli \<and>
          owner (ctx_repo (ctx w)) = owner eli \<and>
          payload_issue (ctx_payload (ctx w)) = Some (issue eli))"

text \<open>An awaited handler hook.\<close>

definition invoke :: "world \<Rightarrow> hook_call \<Rightarrow> effect" where
  "invoke w c = (hook w c, [Hook c])"

text \<open>The body of the \<^verbatim>\<open>try\<close> block, lines 54 to 94.\<close>

definition run_try :: "world \<Rightarrow> action \<Rightarrow> effect" where
  "run_try w a =
     (case getRequiredInput w ''token'' of
        Inl e \<Rightarrow> (Some e, [])
      | Inr tok \<Rightarrow>
         (let readonly = (getInput w ''readonly'' \<noteq> []);
              c = ctx w;
              p = ctx_payload c
          in if truthy_number (issue_number c) then
               (let octokit = OctoKitIssue tok (ctx_repo c) (the (issue_number c)) readonly
                in andThen (None, [New octokit])
                  (if eventName c = ''issue_comment'' then
                     (case comment_body p of
                        None \<Rightarrow> (Some (typeError w ''body''), [])
                      | Some body \<Rightarrow> invoke w (OnCommented octokit body (actor c)))
                   else if eventName c = ''issues'' then
                     (if payload_action p = ''opened'' then invoke w (OnOpened octokit)
                      else if payload_action p = ''reopened'' then invoke w (OnReopened octokit)
                      else if payload_action p = ''closed'' then invoke w (OnClosed octokit)
                      else if payload_action p = ''labeled'' then
                        (case label_name p of
                           None \<Rightarrow> (Some (typeError w ''name''), [])
                         | Some l \<Rightarrow> invoke w (OnLabeled octokit l))
                      else if payload_action p = ''assigned'' then
                        (case assignee_login p of
                           None \<Rightarrow> (Some (typeError w ''login''), [])
                         | Some l \<Rightarrow> invoke w (OnAssigned octokit l))
                      else if payload_action p = ''unassigned'' then
                        (case assignee_login p of
                           None \<Rightarrow> (Some (typeError w ''login''), [])
                         | Some l \<Rightarrow> invoke w (OnUnassigned octokit l))
                      else if payload_action p = ''edited'' then invoke w (OnEdited octokit)
                      else if payload_action p = ''milestoned'' then
                        invoke w (OnMilestoned octokit)
                      else (Some (new_Error w (''Unexpected action: '' @ payload_action p)), []))
                   else (None, [])))
             else
               (let octokit = OctoKit tok (ctx_repo c) readonly
                in andThen (None, [New octokit]) (invoke w (OnTriggered octokit)))))"

text \<open>\<^verbatim>\<open>e?.stack || e?.message || String(e)\<close>, line 99.\<close>

definition raw_text :: "js_error \<Rightarrow> string" where
  "raw_text e =
     (case stack e of
        Some s \<Rightarrow> if s \<noteq> [] then s
                  else if message e \<noteq> [] then message e else stringified e
      | None \<Rightarrow> if message e \<noteq> [] then message e else stringified e)"

text \<open>The \<^verbatim>\<open>catch\<close> clause, lines 95 to 101: it never throws.\<close>

definition run_catch :: "world \<Rightarrow> action \<Rightarrow> js_error \<Rightarrow> event list" where
  "run_catch w a e =
     (case fst (error w a e) of
        None \<Rightarrow> snd (error w a e)
      | Some _ \<Rightarrow> snd (error w a e) @ [SafeLog (raw_text e)])"

text \<open>The metrics emission, lines 103 to 108.\<close>

definition run_metrics :: "world \<Rightarrow> action \<Rightarrow> effect" where
  "run_metrics w a =
     andThen (trackMetric w a
                \<lparr> metric_name = ''octokit_request_count'', metric_value = getNumRequests w \<rparr>)
       (case getRateLimit w (token a) of
          Inl e \<Rightarrow> (Some e, [GetRateLimit (token a)])
        | Inr u \<Rightarrow>
            andThen (None, [GetRateLimit (token a)])
           (andThen (trackMetric w a \<lparr> metric_name = ''usage_core'', metric_value = core u \<rparr>)
           (andThen (trackMetric w a
                       \<lparr> metric_name = ''usage_graphql'', metric_value = graphql u \<rparr>)
                    (trackMetric w a
                       \<lparr> metric_name = ''usage_search'', metric_value = search u \<rparr>))))"

definition run :: "world \<Rightarrow> action \<Rightarrow> effect" where
  "run w a =
     (if refuses w then
        (None, [SafeLog ''refusing to run on error logging issue to prevent cascading errors''])
      else
        (let t = run_try w a;
             handled = (case fst t of None \<Rightarrow> snd t | Some e \<Rightarrow> snd t @ run_catch w a e);
             m = run_metrics w a
         in (fst m, handled @ snd m)))"

text \<open>The default handler methods, lines 136 to 165.\<close>

definition not_implemented :: "world \<Rightarrow> hook_call \<Rightarrow> js_error option" where
  "not_implemented w c = Some (new_Error w ''not implemented'')"

subsection \<open>Reading a trace\<close>

fun hook_calls :: "event list \<Rightarrow> hook_call list" where
  "hook_calls [] = []"
| "hook_calls (Hook c # es) = c # hook_calls es"
| "hook_calls (_ # es) = hook_calls es"

fun metrics_of :: "event list \<Rightarrow> metric list" where
  "metrics_of [] = []"
| "metrics_of (TrackMetric m # es) = m # metrics_of es"
| "metrics_of (_ # es) = metrics_of es"

fun reports_of :: "event list \<Rightarrow> string list" where
  "reports_of [] = []"
| "reports_of (LogErrorToIssue r _ _ # es) = r # reports_of es"
| "reports_of (_ # es) = reports_of es"

subsection \<open>Two concrete runs\<close>

text \<open>
  A sink that accepts everything, and the run of a labeled event on issue 42 of
  \<^verbatim>\<open>o/r\<close> with no error-logging issue configured, by a subclass whose hooks all return.
\<close>

definition accepting_sink :: sink where
  "accepting_sink = \<lparr> sink_trackMetric = (\<lambda>_. None), sink_trackException = (\<lambda>_. None) \<rparr>"

definition labeled_world :: world where
  "labeled_world =
     \<lparr> ctx = \<lparr> eventName = ''issues'', actor = ''alice'',
               ctx_repo = \<lparr> owner = ''o'', repo = ''r'' \<rparr>,
               issue_number = Some 42,
               ctx_payload = \<lparr> payload_action = ''labeled'', payload_issue = Some 42,
                               comment_body = None, label_name = Some ''bug'',
                               assignee_login = None \<rparr> \<rparr>,
       getRequiredInput = (\<lambda>n. if n = ''token'' then Inr ''secret''
                                 else Inl (JsError ''missing'' None ''Error: missing'')),
       getInput = (\<lambda>_. []),
       errorLoggingIssue = None,
       aiHandle = Some accepting_sink,
       getAuthenticated = (\<lambda>_. Inr ''bot-user''),
       hook = (\<lambda>_. None),
       logErrorToIssue = (\<lambda>_ _ _. None),
       getNumRequests = 3,
       getRateLimit = (\<lambda>_. Inr \<lparr> core = 1 / 4, graphql = 0, search = 1 / 2 \<rparr>),
       uuid = ''u'',
       stackTrace = (\<lambda>m. ''Error: '' @ m @ '' at run''),
       typeError = (\<lambda>n. JsError (''Cannot read property '' @ n @ '' of undefined'')
                            (Some ''TypeError at run'') ''TypeError'') \<rparr>"

definition the_action :: action where
  "the_action = \<lparr> action_id = ''bot'', username = ''bot-user'', token = ''secret'' \<rparr>"

text \<open>A closed event on issue 7 of \<^verbatim>\<open>o/r\<close>, which is the configured error-logging issue.\<close>

definition closed_world :: world where
  "closed_world =
     labeled_world
       \<lparr> ctx := \<lparr> eventName = ''issues'', actor = ''alice'',
                  ctx_repo = \<lparr> owner = ''o'', repo = ''r'' \<rparr>,
                  issue_number = Some 7,
                  ctx_payload = \<lparr> payload_action = ''closed'', payload_issue = Some 7,
                                  comment_body = None, label_name = None,
                                  assignee_login = None \<rparr> \<rparr>,
         errorLoggingIssue := Some \<lparr> owner = ''o'', repo = ''r'', issue = 7 \<rparr> \<rparr>"

subsection \<open>Further concrete runs\<close>

definition an_error :: js_error where
  "an_error = JsError ''boom'' (Some ''Error: boom at x'') ''Error: boom''"

text \<open>The labeled run when the rate-limit query fails.\<close>

definition rate_limit_down_world :: world where
  "rate_limit_down_world = labeled_world \<lparr> getRateLimit := (\<lambda>_. Inl an_error) \<rparr>"

text \<open>The labeled run with a telemetry sink whose metric call throws.\<close>

definition failing_sink :: sink where
  "failing_sink =
     \<lparr> sink_trackMetric = (\<lambda>_. Some an_error), sink_trackException = (\<lambda>_. None) \<rparr>"

definition sink_down_world :: world where
  "sink_down_world = labeled_world \<lparr> aiHandle := Some failing_sink \<rparr>"

text \<open>The labeled run by a subclass that overrides no hook.\<close>

definition plain_world :: world where
  "plain_world = labeled_world \<lparr> hook := not_implemented labeled_world \<rparr>"

text \<open>The same when the error-reporting channel fails too.\<close>

definition unreported_world :: world where
  "unreported_world = plain_world \<lparr> logErrorToIssue := (\<lambda>_ _ _. Some an_error) \<rparr>"

text \<open>An issue event with a sub-action outside the eight, off and on the error-logging issue.\<close>

definition transferred_world :: world where
  "transferred_world =
     labeled_world
       \<lparr> ctx := \<lparr> eventName = ''issues'', actor = ''alice'',
                  ctx_repo = \<lparr> owner = ''o'', repo = ''r'' \<rparr>,
                  issue_number = Some 42,
                  ctx_payload = \<lparr> payload_action = ''transferred'', payload_issue = Some 42,
                                  comment_body = None, label_name = None,
                                  assignee_login = None \<rparr> \<rparr> \<rparr>"

definition transferred_closed_world :: world where
  "transferred_closed_world =
     closed_world
       \<lparr> ctx := \<lparr> eventName = ''issues'', actor = ''alice'',
                  ctx_repo = \<lparr> owner = ''o'', repo = ''r'' \<rparr>,
                  issue_number = Some 7,
                  ctx_payload = \<lparr> payload_action = ''transferred'', payload_issue = Some 7,
                                  comment_body = None, label_name = None,
                                  assignee_login = None \<rparr> \<rparr> \<rparr>"

text \<open>A scheduled run: no issue number anywhere.\<close>

definition scheduled_world :: world where
  "scheduled_world =
     labeled_world
       \<lparr> ctx := \<lparr> eventName = ''schedule'', actor = ''alice'',
                  ctx_repo = \<lparr> owner = ''o'', repo = ''r'' \<rparr>,
                  issue_number = None,
                  ctx_payload = \<lparr> payload_action = [], payload_issue = None,
                                  comment_body = None, label_name = None,
                                  assignee_login = None \<rparr> \<rparr> \<rparr>"

text \<open>
  An opened event whose payload has no issue object while the context's issue number is
  7, the configured error-logging issue.
\<close>

definition detached_world :: world where
  "detached_world =
     closed_world
       \<lparr> ctx := \<lparr> eventName = ''issues'', actor = ''alice'',
                  ctx_repo = \<lparr> owner = ''o'', repo = ''r'' \<rparr>,
                  issue_number = Some 7,
                  ctx_payload = \<lparr> payload_action = ''opened'', payload_issue = None,
                                  comment_body = None, label_name = None,
                                  assignee_login = None \<rparr> \<rparr> \<rparr>"

text \<open>The labeled run, unhandled, when the identity provider fails.\<close>

definition anonymous_world :: world where
  "anonymous_world = plain_world \<lparr> getAuthenticated := (\<lambda>_. Inl an_error) \<rparr>"

definition anonymous_action :: action where
  "anonymous_action = \<lparr> action_id = ''bot'', username = ''unknown'', token = ''secret'' \<rparr>"

text \<open>A labeled event on issue 42 whose payload has no label object.\<close>

definition unlabeled_world :: world where
  "unlabeled_world =
     labeled_world
       \<lparr> ctx := \<lparr> eventName = ''issues'', actor = ''alice'',
                  ctx_repo = \<lparr> owner = ''o'', repo = ''r'' \<rparr>,
                  issue_number = Some 42,
                  ctx_payload = \<lparr> payload_action = ''labeled'', payload_issue = Some 42,
                                  comment_body = None, label_name = None,
                                  assignee_login = None \<rparr> \<rparr> \<rparr>"

text \<open>The labeled run with a sink whose metric call throws on the graphql sample only.\<close>

definition late_sink :: sink where
  "late_sink =
     \<lparr> sink_trackMetric =
         (\<lambda>m. if metric_name m = ''usage_graphql'' then Some an_error else None),
       sink_trackException = (\<lambda>_. None) \<rparr>"

definition late_world :: world where
  "late_world = labeled_world \<lparr> aiHandle := Some late_sink \<rparr>"

subsection \<open>Reading a trace, continued\<close>

fun clients_of :: "event list \<Rightarrow> client list" where
  "clients_of [] = []"
| "clients_of (New c # es) = c # clients_of es"
| "clients_of (_ # es) = clients_of es"

fun failures_of :: "event list \<Rightarrow> string list" where
  "failures_of [] = []"
| "failures_of (SetFailed m # es) = m # failures_of es"
| "failures_of (_ # es) = failures_of es"

fun identity_queries :: "event list \<Rightarrow> string list" where
  "identity_queries [] = []"
| "identity_queries (GetAuthenticated t # es) = t # identity_queries es"
| "identity_queries (_ # es) = identity_queries es"

fun logged :: "event list \<Rightarrow> string list" where
  "logged [] = []"
| "logged (SafeLog t # es) = t # logged es"
| "logged (_ # es) = logged es"

section \<open>Structure of a run\<close>

lemma andThen_None [simp]: "andThen (None, t) q = (fst q, t @ snd q)"
  by (simp add: andThen_def)

lemma andThen_Some [simp]: "andThen (Some e, t) q = (Some e, t)"
  by (simp add: andThen_def)

subsection \<open>The trace readers distribute over concatenation\<close>

lemma hook_calls_append [simp]: "hook_calls (xs @ ys) = hook_calls xs @ hook_calls ys"
  by (induction xs rule: hook_calls.induct) simp_all

lemma metrics_of_append [simp]: "metrics_of (xs @ ys) = metrics_of xs @ metrics_of ys"
  by (induction xs rule: metrics_of.induct) simp_all

lemma reports_of_append [simp]: "reports_of (xs @ ys) = reports_of xs @ reports_of ys"
  by (induction xs rule: reports_of.induct) simp_all

lemma clients_of_append [simp]: "clients_of (xs @ ys) = clients_of xs @ clients_of ys"
  by (induction xs rule: clients_of.induct) simp_all

lemma failures_of_append [simp]: "failures_of (xs @ ys) = failures_of xs @ failures_of ys"
  by (induction xs rule: failures_of.induct) simp_all

lemma identity_queries_append [simp]:
  "identity_queries (xs @ ys) = identity_queries xs @ identity_queries ys"
  by (induction xs rule: identity_queries.induct) simp_all

lemma logged_append [simp]: "logged (xs @ ys) = logged xs @ logged ys"
  by (induction xs rule: logged.induct) simp_all

subsection \<open>What each part of \<open>run\<close> calls\<close>

lemma trackMetric_trace:
  "snd (trackMetric w a t) =
     (case aiHandle w of None \<Rightarrow> [] | Some h \<Rightarrow> [TrackMetric (properties w a t)])"
  by (simp add: trackMetric_def split: option.splits)

lemma trackMetric_outcome:
  "fst (trackMetric w a t) =
     (case aiHandle w of None \<Rightarrow> None | Some h \<Rightarrow> sink_trackMetric h (properties w a t))"
  by (simp add: trackMetric_def split: option.splits)

lemma error_reports [simp]: "reports_of (snd (error w a e)) = [rendered a e]"
  by (simp add: error_def andThen_def split: option.splits)

lemma error_hooks [simp]: "hook_calls (snd (error w a e)) = []"
  by (simp add: error_def andThen_def split: option.splits)

lemma error_metrics [simp]: "metrics_of (snd (error w a e)) = []"
  by (simp add: error_def andThen_def split: option.splits)

lemma error_clients [simp]: "clients_of (snd (error w a e)) = []"
  by (simp add: error_def andThen_def split: option.splits)

lemma error_identity [simp]: "identity_queries (snd (error w a e)) = []"
  by (simp add: error_def andThen_def split: option.splits)

lemma run_catch_reports [simp]: "reports_of (run_catch w a e) = [rendered a e]"
  by (simp add: run_catch_def split: option.splits)

lemma run_catch_hooks [simp]: "hook_calls (run_catch w a e) = []"
  by (simp add: run_catch_def split: option.splits)

lemma run_catch_metrics [simp]: "metrics_of (run_catch w a e) = []"
  by (simp add: run_catch_def split: option.splits)

lemma run_catch_clients [simp]: "clients_of (run_catch w a e) = []"
  by (simp add: run_catch_def split: option.splits)

lemma run_catch_identity [simp]: "identity_queries (run_catch w a e) = []"
  by (simp add: run_catch_def split: option.splits)

lemma run_catch_delivers:
  "LogErrorToIssue (rendered a e) True (token a) \<in> set (run_catch w a e)"
  by (simp add: run_catch_def error_def andThen_def split: option.splits)

lemma run_try_metrics [simp]: "metrics_of (snd (run_try w a)) = []"
  by (simp add: run_try_def Let_def invoke_def split: sum.splits option.splits)

lemma run_try_reports [simp]: "reports_of (snd (run_try w a)) = []"
  by (simp add: run_try_def Let_def invoke_def split: sum.splits option.splits)

lemma run_try_identity [simp]: "identity_queries (snd (run_try w a)) = []"
  by (simp add: run_try_def Let_def invoke_def split: sum.splits option.splits)

lemma run_try_failures [simp]: "failures_of (snd (run_try w a)) = []"
  by (simp add: run_try_def Let_def invoke_def split: sum.splits option.splits)

lemma run_try_logged [simp]: "logged (snd (run_try w a)) = []"
  by (simp add: run_try_def Let_def invoke_def split: sum.splits option.splits)

lemma run_metrics_hooks [simp]: "hook_calls (snd (run_metrics w a)) = []"
  by (simp add: run_metrics_def trackMetric_def andThen_def split: option.splits sum.splits)

lemma run_metrics_reports [simp]: "reports_of (snd (run_metrics w a)) = []"
  by (simp add: run_metrics_def trackMetric_def andThen_def split: option.splits sum.splits)

lemma run_metrics_clients [simp]: "clients_of (snd (run_metrics w a)) = []"
  by (simp add: run_metrics_def trackMetric_def andThen_def split: option.splits sum.splits)

lemma run_metrics_identity [simp]: "identity_queries (snd (run_metrics w a)) = []"
  by (simp add: run_metrics_def trackMetric_def andThen_def split: option.splits sum.splits)

lemma run_metrics_failures [simp]: "failures_of (snd (run_metrics w a)) = []"
  by (simp add: run_metrics_def trackMetric_def andThen_def split: option.splits sum.splits)

lemma run_metrics_logged [simp]: "logged (snd (run_metrics w a)) = []"
  by (simp add: run_metrics_def trackMetric_def andThen_def split: option.splits sum.splits)

subsection \<open>A run that is not refused\<close>

lemma run_outcome: "\<not> refuses w \<Longrightarrow> fst (run w a) = fst (run_metrics w a)"
  by (simp add: run_def Let_def)

lemma run_trace:
  "\<not> refuses w \<Longrightarrow>
   snd (run w a) =
     snd (run_try w a)
     @ (case fst (run_try w a) of None \<Rightarrow> [] | Some e \<Rightarrow> run_catch w a e)
     @ snd (run_metrics w a)"
  by (simp add: run_def Let_def split: option.splits)

lemma run_hooks: "\<not> refuses w \<Longrightarrow> hook_calls (snd (run w a)) = hook_calls (snd (run_try w a))"
  by (simp add: run_trace split: option.splits)

lemma run_clients: "\<not> refuses w \<Longrightarrow> clients_of (snd (run w a)) = clients_of (snd (run_try w a))"
  by (simp add: run_trace split: option.splits)

lemma run_reports:
  "\<not> refuses w \<Longrightarrow>
   reports_of (snd (run w a)) =
     (case fst (run_try w a) of None \<Rightarrow> [] | Some e \<Rightarrow> [rendered a e])"
  by (simp add: run_trace split: option.splits)

lemma run_failures:
  "\<not> refuses w \<Longrightarrow>
   failures_of (snd (run w a)) =
     (case fst (run_try w a) of None \<Rightarrow> [] | Some e \<Rightarrow> failures_of (run_catch w a e))"
  by (simp add: run_trace split: option.splits)

lemma run_metrics_of:
  "\<not> refuses w \<Longrightarrow> metrics_of (snd (run w a)) = metrics_of (snd (run_metrics w a))"
  by (simp add: run_trace split: option.splits)

lemma run_identity: "identity_queries (snd (run w a)) = []"
  by (cases "refuses w") (simp_all add: run_trace split: option.splits, simp add: run_def)

lemma no_payload_issue_not_refused:
  "payload_issue (ctx_payload (ctx w)) = None \<Longrightarrow> \<not> refuses w"
  by (simp add: refuses_def split: option.splits)

lemma constructor_token:
  "constructor w i = (Inr a, tr) \<Longrightarrow> getRequiredInput w ''token'' = Inr (token a)"
  by (auto simp: constructor_def split: sum.splits)

subsection \<open>Facts about the concrete runs\<close>

lemma show_nat_42: "show_nat 42 = ''42''"
  by (simp add: show_nat.simps [of 42] show_nat.simps [of 4])

lemma the_action_constructed:
  "constructor labeled_world ''bot'' =
     (Inr the_action, [ConsoleLog ''::stop-commands::u'', GetAuthenticated ''secret''])"
  by (simp add: constructor_def labeled_world_def the_action_def)

lemma the_action_constructed_closed:
  "constructor closed_world ''bot'' =
     (Inr the_action, [ConsoleLog ''::stop-commands::u'', GetAuthenticated ''secret''])"
  by (simp add: constructor_def closed_world_def labeled_world_def the_action_def)

lemma transferred_constructed:
  "constructor transferred_world ''bot'' =
     (Inr the_action, [ConsoleLog ''::stop-commands::u'', GetAuthenticated ''secret''])"
  by (simp add: constructor_def transferred_world_def labeled_world_def the_action_def)

lemma scheduled_constructed:
  "constructor scheduled_world ''bot'' =
     (Inr the_action, [ConsoleLog ''::stop-commands::u'', GetAuthenticated ''secret''])"
  by (simp add: constructor_def scheduled_world_def labeled_world_def the_action_def)

lemma anonymous_constructed:
  "constructor anonymous_world ''bot'' =
     (Inr anonymous_action, [ConsoleLog ''::stop-commands::u'', GetAuthenticated ''secret''])"
  by (simp add: constructor_def anonymous_world_def plain_world_def labeled_world_def
      anonymous_action_def)

lemma labeled_not_refused: "\<not> refuses labeled_world"
  by (simp add: refuses_def labeled_world_def)

lemma plain_not_refused: "\<not> refuses plain_world"
  by (simp add: refuses_def plain_world_def labeled_world_def)

lemma unreported_not_refused: "\<not> refuses unreported_world"
  by (simp add: refuses_def unreported_world_def plain_world_def labeled_world_def)

lemma transferred_not_refused: "\<not> refuses transferred_world"
  by (simp add: refuses_def transferred_world_def labeled_world_def)

lemma anonymous_not_refused: "\<not> refuses anonymous_world"
  by (simp add: refuses_def anonymous_world_def plain_world_def labeled_world_def)

lemma plain_run_try:
  "fst (run_try plain_world the_action) =
     Some (JsError ''not implemented'' (Some ''Error: not implemented at run'')
             ''Error: not implemented'')"
  by (simp add: run_try_def truthy_number_def invoke_def not_implemented_def new_Error_def
      Let_def plain_world_def labeled_world_def)

lemma unreported_run_try:
  "fst (run_try unreported_world the_action) =
     Some (JsError ''not implemented'' (Some ''Error: not implemented at run'')
             ''Error: not implemented'')"
  by (simp add: run_try_def truthy_number_def invoke_def not_implemented_def new_Error_def
      Let_def unreported_world_def plain_world_def labeled_world_def)

lemma anonymous_run_try:
  "fst (run_try anonymous_world anonymous_action) =
     Some (JsError ''not implemented'' (Some ''Error: not implemented at run'')
             ''Error: not implemented'')"
  by (simp add: run_try_def truthy_number_def invoke_def not_implemented_def new_Error_def
      Let_def anonymous_world_def plain_world_def labeled_world_def)

section \<open>Metrics emission\<close>

text \<open>
  C1, as amended. In a run that passes the self-protection check, if the rate-limit query
  returns and the telemetry sink, when one is configured, accepts every sample, then
  \<open>run\<close> returns normally and its calls end with the four \<open>trackMetric\<close> invocations
  (request count, then core, graphql and search usage, the rate-limit query between the
  first and the second), whatever the routed handler and the error-reporting path did.
  With a sink configured, exactly these four samples reach it, in this order.
\<close>

theorem metrics_emitted_when_accounting_succeeds:
  assumes "\<not> refuses w"
    and "getRateLimit w (token a) = Inr u"
    and "\<And>h m. aiHandle w = Some h \<Longrightarrow> sink_trackMetric h m = None"
  shows "fst (run w a) = None
    \<and> snd (run w a) =
        snd (run_try w a)
        @ (case fst (run_try w a) of None \<Rightarrow> [] | Some e \<Rightarrow> run_catch w a e)
        @ snd (trackMetric w a
                 \<lparr> metric_name = ''octokit_request_count'', metric_value = getNumRequests w \<rparr>)
        @ [GetRateLimit (token a)]
        @ snd (trackMetric w a \<lparr> metric_name = ''usage_core'', metric_value = core u \<rparr>)
        @ snd (trackMetric w a \<lparr> metric_name = ''usage_graphql'', metric_value = graphql u \<rparr>)
        @ snd (trackMetric w a \<lparr> metric_name = ''usage_search'', metric_value = search u \<rparr>)
    \<and> metrics_of (snd (run w a)) =
        (case aiHandle w of
           None \<Rightarrow> []
         | Some h \<Rightarrow>
             map (properties w a)
               [\<lparr> metric_name = ''octokit_request_count'', metric_value = getNumRequests w \<rparr>,
                \<lparr> metric_name = ''usage_core'', metric_value = core u \<rparr>,
                \<lparr> metric_name = ''usage_graphql'', metric_value = graphql u \<rparr>,
                \<lparr> metric_name = ''usage_search'', metric_value = search u \<rparr>])"
proof -
  have ok: "fst (trackMetric w a t) = None" for t
    using assms(3) by (simp add: trackMetric_outcome split: option.splits)
  have m: "run_metrics w a =
      (None,
       snd (trackMetric w a
              \<lparr> metric_name = ''octokit_request_count'', metric_value = getNumRequests w \<rparr>)
       @ [GetRateLimit (token a)]
       @ snd (trackMetric w a \<lparr> metric_name = ''usage_core'', metric_value = core u \<rparr>)
       @ snd (trackMetric w a \<lparr> metric_name = ''usage_graphql'', metric_value = graphql u \<rparr>)
       @ snd (trackMetric w a \<lparr> metric_name = ''usage_search'', metric_value = search u \<rparr>))"
    using assms(2) by (simp add: run_metrics_def andThen_def ok)
  have 1: "fst (run w a) = None"
    using assms(1) m by (simp add: run_outcome)
  have 2: "snd (run w a) =
        snd (run_try w a)
        @ (case fst (run_try w a) of None \<Rightarrow> [] | Some e \<Rightarrow> run_catch w a e)
        @ snd (trackMetric w a
                 \<lparr> metric_name = ''octokit_request_count'', metric_value = getNumRequests w \<rparr>)
        @ [GetRateLimit (token a)]
        @ snd (trackMetric w a \<lparr> metric_name = ''usage_core'', metric_value = core u \<rparr>)
        @ snd (trackMetric w a \<lparr> metric_name = ''usage_graphql'', metric_value = graphql u \<rparr>)
        @ snd (trackMetric w a \<lparr> metric_name = ''usage_search'', metric_value = search u \<rparr>)"
    using assms(1) m by (simp add: run_trace)
  have 3: "metrics_of (snd (run w a)) =
        (case aiHandle w of
           None \<Rightarrow> []
         | Some h \<Rightarrow>
             map (properties w a)
               [\<lparr> metric_name = ''octokit_request_count'', metric_value = getNumRequests w \<rparr>,
                \<lparr> metric_name = ''usage_core'', metric_value = core u \<rparr>,
                \<lparr> metric_name = ''usage_graphql'', metric_value = graphql u \<rparr>,
                \<lparr> metric_name = ''usage_search'', metric_value = search u \<rparr>])"
    using assms(1) m by (simp add: run_metrics_of trackMetric_trace split: option.splits)
  from 1 2 3 show ?thesis by blast
qed

text \<open>
  The labeled event on issue 42: the run returns normally and the sink receives four
  samples, each tagged with issue 42.
\<close>

theorem metrics_emitted_witness:
  "\<not> refuses labeled_world
   \<and> getRateLimit labeled_world (token the_action)
       = Inr \<lparr> core = 1 / 4, graphql = 0, search = 1 / 2 \<rparr>
   \<and> fst (run labeled_world the_action) = None
   \<and> map metric_name (metrics_of (snd (run labeled_world the_action)))
       = [''octokit_request_count'', ''usage_core'', ''usage_graphql'', ''usage_search'']
   \<and> map metric_value (metrics_of (snd (run labeled_world the_action))) = [3, 1 / 4, 0, 1 / 2]
   \<and> map prop_issue (metrics_of (snd (run labeled_world the_action)))
       = [''42'', ''42'', ''42'', ''42'']"
proof -
  have r: "getRateLimit labeled_world (token the_action)
       = Inr \<lparr> core = 1 / 4, graphql = 0, search = 1 / 2 \<rparr>"
    by (simp add: labeled_world_def)
  have s: "sink_trackMetric h m = None" if "aiHandle labeled_world = Some h" for h m
    using that by (auto simp: labeled_world_def accepting_sink_def)
  have i: "show_number (issue_number (ctx labeled_world)) = ''42''"
    by (simp add: show_number_def show_nat_42 labeled_world_def)
  have n: "getNumRequests labeled_world = 3" "aiHandle labeled_world = Some accepting_sink"
    by (simp_all add: labeled_world_def)
  have "fst (run labeled_world the_action) = None
    \<and> metrics_of (snd (run labeled_world the_action)) =
        map (properties labeled_world the_action)
          [\<lparr> metric_name = ''octokit_request_count'', metric_value = 3 \<rparr>,
           \<lparr> metric_name = ''usage_core'', metric_value = 1 / 4 \<rparr>,
           \<lparr> metric_name = ''usage_graphql'', metric_value = 0 \<rparr>,
           \<lparr> metric_name = ''usage_search'', metric_value = 1 / 2 \<rparr>]"
    using metrics_emitted_when_accounting_succeeds [OF labeled_not_refused r s, THEN conjunct1]
      metrics_emitted_when_accounting_succeeds
        [OF labeled_not_refused r s, THEN conjunct2, THEN conjunct2]
    by (simp add: n)
  then show ?thesis
    by (simp add: labeled_not_refused r n properties_def i)
qed

text \<open>
  C1 as stated fails. When the rate-limit query throws, a run that passed the check and
  whose handler returned throws that error itself, after one sample only; when the
  sink's metric call throws, the run throws on the first sample.
\<close>

theorem metrics_not_emitted_counterexample:
  "\<not> refuses rate_limit_down_world
   \<and> hook_calls (snd (run rate_limit_down_world the_action)) =
       [OnLabeled (OctoKitIssue ''secret'' \<lparr> owner = ''o'', repo = ''r'' \<rparr> 42 False) ''bug'']
   \<and> fst (run rate_limit_down_world the_action) = Some an_error
   \<and> map metric_name (metrics_of (snd (run rate_limit_down_world the_action)))
       = [''octokit_request_count'']
   \<and> \<not> refuses sink_down_world
   \<and> fst (run sink_down_world the_action) = Some an_error"
proof -
  have g: "\<not> refuses rate_limit_down_world"
    by (simp add: refuses_def rate_limit_down_world_def labeled_world_def)
  have g': "\<not> refuses sink_down_world"
    by (simp add: refuses_def sink_down_world_def labeled_world_def)
  have h: "hook_calls (snd (run_try rate_limit_down_world the_action)) =
       [OnLabeled (OctoKitIssue ''secret'' \<lparr> owner = ''o'', repo = ''r'' \<rparr> 42 False) ''bug'']"
    by (simp add: run_try_def truthy_number_def invoke_def Let_def rate_limit_down_world_def
        labeled_world_def)
  have m: "fst (run_metrics rate_limit_down_world the_action) = Some an_error
    \<and> map metric_name (metrics_of (snd (run_metrics rate_limit_down_world the_action)))
        = [''octokit_request_count'']"
    by (simp add: run_metrics_def trackMetric_def properties_def rate_limit_down_world_def
        labeled_world_def accepting_sink_def)
  have m': "fst (run_metrics sink_down_world the_action) = Some an_error"
    by (simp add: run_metrics_def trackMetric_def sink_down_world_def labeled_world_def
        failing_sink_def)
  show ?thesis
    using g g' h m m' by (simp add: run_outcome run_metrics_of run_hooks)
qed

section \<open>Self-protection\<close>

text \<open>
  C2. When an error-logging issue is configured and the event's repository name,
  repository owner and payload issue number all equal it, \<open>run\<close> returns normally after
  exactly one call, the refusal message on the log: no hook is invoked, no failure
  report is delivered and no metric sample is emitted.
\<close>

theorem run_refuses_on_error_logging_issue:
  assumes "errorLoggingIssue w = Some eli"
    and "repo (ctx_repo (ctx w)) = repo eli"
    and "owner (ctx_repo (ctx w)) = owner eli"
    and "payload_issue (ctx_payload (ctx w)) = Some (issue eli)"
  shows "run w a =
           (None, [SafeLog ''refusing to run on error logging issue to prevent cascading errors''])
         \<and> hook_calls (snd (run w a)) = []
         \<and> reports_of (snd (run w a)) = []
         \<and> metrics_of (snd (run w a)) = []"
  using assms by (simp add: run_def refuses_def)

theorem run_refuses_on_error_logging_issue_witness:
  "errorLoggingIssue closed_world = Some \<lparr> owner = ''o'', repo = ''r'', issue = 7 \<rparr>
   \<and> repo (ctx_repo (ctx closed_world)) = ''r''
   \<and> owner (ctx_repo (ctx closed_world)) = ''o''
   \<and> payload_issue (ctx_payload (ctx closed_world)) = Some 7
   \<and> run closed_world the_action =
         (None, [SafeLog ''refusing to run on error logging issue to prevent cascading errors''])"
  using run_refuses_on_error_logging_issue
          [of closed_world "\<lparr> owner = ''o'', repo = ''r'', issue = 7 \<rparr>" the_action]
  by (simp add: closed_world_def)

section \<open>Routing\<close>

text \<open>
  C3, as amended. For a constructed object, in a run that passes the self-protection
  check, on an event whose context carries an issue number (a positive one, as the
  platform assigns; \<^verbatim>\<open>if (issue)\<close> takes 0 for absent) and a recognized kind and
  sub-action, and whose payload carries the object the hook's argument is read from (the
  comment for comment-added, the label for labeled, the assignee for assigned and
  unassigned), \<open>run\<close> invokes exactly one hook, on the issue-scoped client:
  comment-added gives \<open>OnCommented\<close> with the comment body and the actor, and an issue
  event gives the hook of its sub-action, with the label name for labeled and the
  assignee login for assigned and unassigned. When the payload lacks that object, reading
  the argument throws before the call: no hook is invoked and the error is reported.
\<close>

theorem run_invokes_matching_hook:
  assumes "constructor w i = (Inr a, tr)"
    and "\<not> refuses w"
    and "issue_number (ctx w) = Some n"
    and "n \<noteq> 0"
    and "octokit = OctoKitIssue (token a) (ctx_repo (ctx w)) n (getInput w ''readonly'' \<noteq> [])"
    and "p = ctx_payload (ctx w)"
  shows "(eventName (ctx w) = ''issue_comment'' \<longrightarrow>
           (\<forall>b. comment_body p = Some b \<longrightarrow>
              hook_calls (snd (run w a)) = [OnCommented octokit b (actor (ctx w))])
         \<and> (comment_body p = None \<longrightarrow>
              hook_calls (snd (run w a)) = []
              \<and> reports_of (snd (run w a)) = [rendered a (typeError w ''body'')]))
    \<and> (eventName (ctx w) = ''issues'' \<longrightarrow>
         (payload_action p = ''opened'' \<longrightarrow> hook_calls (snd (run w a)) = [OnOpened octokit])
       \<and> (payload_action p = ''reopened'' \<longrightarrow> hook_calls (snd (run w a)) = [OnReopened octokit])
       \<and> (payload_action p = ''closed'' \<longrightarrow> hook_calls (snd (run w a)) = [OnClosed octokit])
       \<and> (payload_action p = ''labeled'' \<longrightarrow>
            (\<forall>l. label_name p = Some l \<longrightarrow>
               hook_calls (snd (run w a)) = [OnLabeled octokit l])
          \<and> (label_name p = None \<longrightarrow>
               hook_calls (snd (run w a)) = []
               \<and> reports_of (snd (run w a)) = [rendered a (typeError w ''name'')]))
       \<and> (payload_action p = ''assigned'' \<longrightarrow>
            (\<forall>l. assignee_login p = Some l \<longrightarrow>
               hook_calls (snd (run w a)) = [OnAssigned octokit l])
          \<and> (assignee_login p = None \<longrightarrow>
               hook_calls (snd (run w a)) = []
               \<and> reports_of (snd (run w a)) = [rendered a (typeError w ''login'')]))
       \<and> (payload_action p = ''unassigned'' \<longrightarrow>
            (\<forall>l. assignee_login p = Some l \<longrightarrow>
               hook_calls (snd (run w a)) = [OnUnassigned octokit l])
          \<and> (assignee_login p = None \<longrightarrow>
               hook_calls (snd (run w a)) = []
               \<and> reports_of (snd (run w a)) = [rendered a (typeError w ''login'')]))
       \<and> (payload_action p = ''edited'' \<longrightarrow> hook_calls (snd (run w a)) = [OnEdited octokit])
       \<and> (payload_action p = ''milestoned'' \<longrightarrow>
            hook_calls (snd (run w a)) = [OnMilestoned octokit]))"
proof -
  have tok: "getRequiredInput w ''token'' = Inr (token a)"
    using assms(1) by (rule constructor_token)
  have c: "eventName (ctx w) = ''issue_comment'' \<longrightarrow>
           (\<forall>b. comment_body p = Some b \<longrightarrow>
              hook_calls (snd (run w a)) = [OnCommented octokit b (actor (ctx w))])
         \<and> (comment_body p = None \<longrightarrow>
              hook_calls (snd (run w a)) = []
              \<and> reports_of (snd (run w a)) = [rendered a (typeError w ''body'')])"
    using assms(3-6) tok
    by (simp add: run_hooks [OF assms(2)] run_reports [OF assms(2)] run_try_def
        truthy_number_def Let_def invoke_def)
  have plain: "eventName (ctx w) = ''issues'' \<longrightarrow>
         (payload_action p = ''opened'' \<longrightarrow> hook_calls (snd (run w a)) = [OnOpened octokit])
       \<and> (payload_action p = ''reopened'' \<longrightarrow> hook_calls (snd (run w a)) = [OnReopened octokit])
       \<and> (payload_action p = ''closed'' \<longrightarrow> hook_calls (snd (run w a)) = [OnClosed octokit])
       \<and> (payload_action p = ''edited'' \<longrightarrow> hook_calls (snd (run w a)) = [OnEdited octokit])
       \<and> (payload_action p = ''milestoned'' \<longrightarrow>
            hook_calls (snd (run w a)) = [OnMilestoned octokit])"
    using assms(3-6) tok
    by (simp add: run_hooks [OF assms(2)] run_try_def truthy_number_def Let_def invoke_def)
  have l: "eventName (ctx w) = ''issues'' \<longrightarrow> payload_action p = ''labeled'' \<longrightarrow>
            (\<forall>l. label_name p = Some l \<longrightarrow>
               hook_calls (snd (run w a)) = [OnLabeled octokit l])
          \<and> (label_name p = None \<longrightarrow>
               hook_calls (snd (run w a)) = []
               \<and> reports_of (snd (run w a)) = [rendered a (typeError w ''name'')])"
    using assms(3-6) tok
    by (simp add: run_hooks [OF assms(2)] run_reports [OF assms(2)] run_try_def
        truthy_number_def Let_def invoke_def)
  have s: "eventName (ctx w) = ''issues'' \<longrightarrow> payload_action p = ''assigned'' \<longrightarrow>
            (\<forall>l. assignee_login p = Some l \<longrightarrow>
               hook_calls (snd (run w a)) = [OnAssigned octokit l])
          \<and> (assignee_login p = None \<longrightarrow>
               hook_calls (snd (run w a)) = []
               \<and> reports_of (snd (run w a)) = [rendered a (typeError w ''login'')])"
    using assms(3-6) tok
    by (simp add: run_hooks [OF assms(2)] run_reports [OF assms(2)] run_try_def
        truthy_number_def Let_def invoke_def)
  have u: "eventName (ctx w) = ''issues'' \<longrightarrow> payload_action p = ''unassigned'' \<longrightarrow>
            (\<forall>l. assignee_login p = Some l \<longrightarrow>
               hook_calls (snd (run w a)) = [OnUnassigned octokit l])
          \<and> (assignee_login p = None \<longrightarrow>
               hook_calls (snd (run w a)) = []
               \<and> reports_of (snd (run w a)) = [rendered a (typeError w ''login'')])"
    using assms(3-6) tok
    by (simp add: run_hooks [OF assms(2)] run_reports [OF assms(2)] run_try_def
        truthy_number_def Let_def invoke_def)
  from c plain l s u show ?thesis by blast
qed

text \<open>The labeled event on issue 42 with label bug: one call, \<open>OnLabeled\<close> with that label.\<close>

theorem run_invokes_matching_hook_witness:
  "constructor labeled_world ''bot'' =
     (Inr the_action, [ConsoleLog ''::stop-commands::u'', GetAuthenticated ''secret''])
   \<and> \<not> refuses labeled_world
   \<and> issue_number (ctx labeled_world) = Some 42
   \<and> eventName (ctx labeled_world) = ''issues''
   \<and> payload_action (ctx_payload (ctx labeled_world)) = ''labeled''
   \<and> label_name (ctx_payload (ctx labeled_world)) = Some ''bug''
   \<and> hook_calls (snd (run labeled_world the_action)) =
       [OnLabeled (OctoKitIssue ''secret'' \<lparr> owner = ''o'', repo = ''r'' \<rparr> 42 False) ''bug'']"
proof -
  have n: "issue_number (ctx labeled_world) = Some 42"
    by (simp add: labeled_world_def)
  have z: "(42::nat) \<noteq> 0" by simp
  have o: "OctoKitIssue ''secret'' \<lparr> owner = ''o'', repo = ''r'' \<rparr> 42 False =
      OctoKitIssue (token the_action) (ctx_repo (ctx labeled_world)) 42
        (getInput labeled_world ''readonly'' \<noteq> [])"
    by (simp add: labeled_world_def the_action_def)
  have e: "eventName (ctx labeled_world) = ''issues''"
    by (simp add: labeled_world_def)
  have pa: "payload_action (ctx_payload (ctx labeled_world)) = ''labeled''"
    by (simp add: labeled_world_def)
  have ln: "label_name (ctx_payload (ctx labeled_world)) = Some ''bug''"
    by (simp add: labeled_world_def)
  have "hook_calls (snd (run labeled_world the_action)) =
       [OnLabeled (OctoKitIssue ''secret'' \<lparr> owner = ''o'', repo = ''r'' \<rparr> 42 False) ''bug'']"
    using run_invokes_matching_hook
            [OF the_action_constructed labeled_not_refused n z o refl] e pa ln
    by blast
  then show ?thesis
    using the_action_constructed labeled_not_refused n e pa ln by simp
qed

text \<open>
  C3 as stated fails in two ways. On the error-logging issue: a closed event (an issue
  number, a recognized kind and sub-action) on issue 7, the configured error-logging
  issue, invokes no hook. Without the payload object: a labeled event on issue 42 that
  passes the check and whose payload has no label invokes no hook either; reading the
  label name throws, and that error is reported.
\<close>

theorem no_hook_on_error_logging_issue_counterexample:
  "constructor closed_world ''bot'' =
     (Inr the_action, [ConsoleLog ''::stop-commands::u'', GetAuthenticated ''secret''])
   \<and> issue_number (ctx closed_world) = Some 7
   \<and> eventName (ctx closed_world) = ''issues''
   \<and> payload_action (ctx_payload (ctx closed_world)) = ''closed''
   \<and> hook_calls (snd (run closed_world the_action)) = []
   \<and> constructor unlabeled_world ''bot'' =
     (Inr the_action, [ConsoleLog ''::stop-commands::u'', GetAuthenticated ''secret''])
   \<and> \<not> refuses unlabeled_world
   \<and> issue_number (ctx unlabeled_world) = Some 42
   \<and> eventName (ctx unlabeled_world) = ''issues''
   \<and> payload_action (ctx_payload (ctx unlabeled_world)) = ''labeled''
   \<and> hook_calls (snd (run unlabeled_world the_action)) = []
   \<and> length (reports_of (snd (run unlabeled_world the_action))) = 1"
proof -
  have 1: "constructor closed_world ''bot'' =
     (Inr the_action, [ConsoleLog ''::stop-commands::u'', GetAuthenticated ''secret''])
   \<and> issue_number (ctx closed_world) = Some 7
   \<and> eventName (ctx closed_world) = ''issues''
   \<and> payload_action (ctx_payload (ctx closed_world)) = ''closed''
   \<and> hook_calls (snd (run closed_world the_action)) = []"
    by (simp add: the_action_constructed_closed)
       (simp add: run_def refuses_def closed_world_def)
  have g: "\<not> refuses unlabeled_world"
    by (simp add: refuses_def unlabeled_world_def labeled_world_def)
  have c: "constructor unlabeled_world ''bot'' =
     (Inr the_action, [ConsoleLog ''::stop-commands::u'', GetAuthenticated ''secret''])"
    by (simp add: constructor_def unlabeled_world_def labeled_world_def the_action_def)
  have t: "run_try unlabeled_world the_action =
      (Some (typeError unlabeled_world ''name''),
       [New (OctoKitIssue ''secret'' \<lparr> owner = ''o'', repo = ''r'' \<rparr> 42 False)])"
    by (simp add: run_try_def truthy_number_def Let_def unlabeled_world_def labeled_world_def)
  have 2: "issue_number (ctx unlabeled_world) = Some 42
   \<and> eventName (ctx unlabeled_world) = ''issues''
   \<and> payload_action (ctx_payload (ctx unlabeled_world)) = ''labeled''"
    by (simp add: unlabeled_world_def)
  have 3: "hook_calls (snd (run unlabeled_world the_action)) = []
   \<and> length (reports_of (snd (run unlabeled_world the_action))) = 1"
    by (simp add: run_hooks [OF g] run_reports [OF g] t)
  from 1 g c 2 3 show ?thesis by blast
qed

text \<open>
  C7, as amended. For a constructed object, in a run that passes the self-protection
  check, on an issue event with a (positive) issue number whose sub-action is none of the
  eight, the \<^verbatim>\<open>try\<close> block throws \<^verbatim>\<open>Error('Unexpected action: ' + action)\<close> after
  constructing the client and before any hook; the catch clause renders that error and
  hands the report to the error-reporting channel; \<open>run\<close> does not rethrow it: its
  outcome is that of the metrics emission.
\<close>

theorem unexpected_action_is_reported:
  assumes "constructor w i = (Inr a, tr)"
    and "\<not> refuses w"
    and "issue_number (ctx w) = Some n"
    and "n \<noteq> 0"
    and "eventName (ctx w) = ''issues''"
    and "payload_action (ctx_payload (ctx w)) \<notin>
           set [''opened'', ''reopened'', ''closed'', ''labeled'', ''assigned'', ''unassigned'',
                ''edited'', ''milestoned'']"
    and "e = new_Error w (''Unexpected action: '' @ payload_action (ctx_payload (ctx w)))"
  shows "run_try w a =
           (Some e,
            [New (OctoKitIssue (token a) (ctx_repo (ctx w)) n (getInput w ''readonly'' \<noteq> []))])
    \<and> hook_calls (snd (run w a)) = []
    \<and> reports_of (snd (run w a)) = [rendered a e]
    \<and> LogErrorToIssue (rendered a e) True (token a) \<in> set (snd (run w a))
    \<and> fst (run w a) = fst (run_metrics w a)"
proof -
  have tok: "getRequiredInput w ''token'' = Inr (token a)"
    using assms(1) by (rule constructor_token)
  have t: "run_try w a =
           (Some e,
            [New (OctoKitIssue (token a) (ctx_repo (ctx w)) n (getInput w ''readonly'' \<noteq> []))])"
    using assms(3-7) tok
    by (simp add: run_try_def truthy_number_def Let_def)
  show ?thesis
    using t run_catch_delivers [of a e w]
    by (simp add: run_hooks run_reports run_outcome run_trace assms(2))
qed

text \<open>A transferred event on issue 42: the error is raised, no hook runs, one report.\<close>

theorem unexpected_action_witness:
  "constructor transferred_world ''bot'' =
     (Inr the_action, [ConsoleLog ''::stop-commands::u'', GetAuthenticated ''secret''])
   \<and> \<not> refuses transferred_world
   \<and> issue_number (ctx transferred_world) = Some 42
   \<and> eventName (ctx transferred_world) = ''issues''
   \<and> payload_action (ctx_payload (ctx transferred_world)) = ''transferred''
   \<and> fst (run_try transferred_world the_action) =
       Some (JsError ''Unexpected action: transferred''
               (Some ''Error: Unexpected action: transferred at run'')
               ''Error: Unexpected action: transferred'')
   \<and> hook_calls (snd (run transferred_world the_action)) = []
   \<and> length (reports_of (snd (run transferred_world the_action))) = 1"
proof -
  have n: "issue_number (ctx transferred_world) = Some 42"
    by (simp add: transferred_world_def)
  have z: "(42::nat) \<noteq> 0" by simp
  have e: "eventName (ctx transferred_world) = ''issues''"
    by (simp add: transferred_world_def)
  have pa: "payload_action (ctx_payload (ctx transferred_world)) = ''transferred''"
    by (simp add: transferred_world_def)
  have u: "payload_action (ctx_payload (ctx transferred_world)) \<notin>
           set [''opened'', ''reopened'', ''closed'', ''labeled'', ''assigned'', ''unassigned'',
                ''edited'', ''milestoned'']"
    by (simp add: pa)
  have x: "new_Error transferred_world ''Unexpected action: transferred'' =
           JsError ''Unexpected action: transferred''
               (Some ''Error: Unexpected action: transferred at run'')
               ''Error: Unexpected action: transferred''"
    by (simp add: new_Error_def transferred_world_def labeled_world_def)
  show ?thesis
    using unexpected_action_is_reported
            [OF transferred_constructed transferred_not_refused n z e u refl]
          transferred_constructed transferred_not_refused n e pa
    by (simp add: x)
qed

text \<open>
  C7 as stated fails on the error-logging issue: a transferred event on issue 7, the
  configured error-logging issue, is refused; nothing is raised and no report is made.
\<close>

theorem unexpected_action_refused_counterexample:
  "issue_number (ctx transferred_closed_world) = Some 7
   \<and> eventName (ctx transferred_closed_world) = ''issues''
   \<and> payload_action (ctx_payload (ctx transferred_closed_world)) = ''transferred''
   \<and> fst (run transferred_closed_world the_action) = None
   \<and> reports_of (snd (run transferred_closed_world the_action)) = []"
  by (simp add: run_def refuses_def transferred_closed_world_def closed_world_def)

text \<open>
  C8. For a constructed object, on an event with no issue number (none in the context,
  none in the payload), \<open>run\<close> constructs one client, the repository-scoped one, and
  invokes exactly one hook, \<open>OnTriggered\<close> with that client: none of the nine
  issue-specific hooks is called.
\<close>

theorem run_triggers_without_issue:
  assumes "constructor w i = (Inr a, tr)"
    and "issue_number (ctx w) = None"
    and "payload_issue (ctx_payload (ctx w)) = None"
    and "octokit = OctoKit (token a) (ctx_repo (ctx w)) (getInput w ''readonly'' \<noteq> [])"
  shows "hook_calls (snd (run w a)) = [OnTriggered octokit]
    \<and> clients_of (snd (run w a)) = [octokit]"
proof -
  have tok: "getRequiredInput w ''token'' = Inr (token a)"
    using assms(1) by (rule constructor_token)
  have g: "\<not> refuses w"
    using assms(3) by (rule no_payload_issue_not_refused)
  show ?thesis
    using assms(2,4) tok
    by (simp add: run_hooks [OF g] run_clients [OF g] run_try_def truthy_number_def Let_def
        invoke_def)
qed

theorem run_triggers_witness:
  "constructor scheduled_world ''bot'' =
     (Inr the_action, [ConsoleLog ''::stop-commands::u'', GetAuthenticated ''secret''])
   \<and> issue_number (ctx scheduled_world) = None
   \<and> payload_issue (ctx_payload (ctx scheduled_world)) = None
   \<and> hook_calls (snd (run scheduled_world the_action)) =
       [OnTriggered (OctoKit ''secret'' \<lparr> owner = ''o'', repo = ''r'' \<rparr> False)]
   \<and> clients_of (snd (run scheduled_world the_action)) =
       [OctoKit ''secret'' \<lparr> owner = ''o'', repo = ''r'' \<rparr> False]"
proof -
  have n: "issue_number (ctx scheduled_world) = None"
    by (simp add: scheduled_world_def)
  have p: "payload_issue (ctx_payload (ctx scheduled_world)) = None"
    by (simp add: scheduled_world_def)
  have o: "OctoKit ''secret'' \<lparr> owner = ''o'', repo = ''r'' \<rparr> False =
      OctoKit (token the_action) (ctx_repo (ctx scheduled_world))
        (getInput scheduled_world ''readonly'' \<noteq> [])"
    by (simp add: scheduled_world_def labeled_world_def the_action_def)
  show ?thesis
    using run_triggers_without_issue [OF scheduled_constructed n p o] scheduled_constructed n p
    by simp
qed

text \<open>
  C10. The guard reads the payload's issue field and never fires when the payload has
  no issue object, while routing reads the context's issue number. So there is an event
  whose payload has no issue object and whose repository and context issue number are
  those of the configured error-logging issue, on which the run is not refused and a
  hook is invoked with a client scoped to the error-logging issue.
\<close>

theorem guard_reads_payload_routing_reads_context:
  "(payload_issue (ctx_payload (ctx w)) = None \<longrightarrow> \<not> refuses w)
   \<and> (\<exists>w' a' n.
        payload_issue (ctx_payload (ctx w')) = None
      \<and> issue_number (ctx w') = Some n
      \<and> errorLoggingIssue w' =
          Some \<lparr> owner = owner (ctx_repo (ctx w')), repo = repo (ctx_repo (ctx w')), issue = n \<rparr>
      \<and> \<not> refuses w'
      \<and> hook_calls (snd (run w' a')) =
          [OnOpened (OctoKitIssue (token a') (ctx_repo (ctx w')) n
             (getInput w' ''readonly'' \<noteq> []))])"
proof -
  have p: "payload_issue (ctx_payload (ctx detached_world)) = None"
    by (simp add: detached_world_def)
  note g = no_payload_issue_not_refused [OF p]
  have h: "hook_calls (snd (run detached_world the_action)) =
          [OnOpened (OctoKitIssue (token the_action) (ctx_repo (ctx detached_world)) 7
             (getInput detached_world ''readonly'' \<noteq> []))]"
    by (simp add: run_hooks [OF g])
       (simp add: run_try_def truthy_number_def invoke_def Let_def detached_world_def
          closed_world_def labeled_world_def the_action_def)
  have e: "errorLoggingIssue detached_world =
          Some \<lparr> owner = owner (ctx_repo (ctx detached_world)),
                 repo = repo (ctx_repo (ctx detached_world)), issue = 7 \<rparr>"
    by (simp add: detached_world_def closed_world_def)
  have n: "issue_number (ctx detached_world) = Some 7"
    by (simp add: detached_world_def)
  show ?thesis
    using no_payload_issue_not_refused [of w] p h e n g by blast
qed

theorem guard_reads_payload_witness:
  "payload_issue (ctx_payload (ctx detached_world)) = None
   \<and> issue_number (ctx detached_world) = Some 7
   \<and> errorLoggingIssue detached_world = Some \<lparr> owner = ''o'', repo = ''r'', issue = 7 \<rparr>
   \<and> \<not> refuses detached_world"
proof -
  have p: "payload_issue (ctx_payload (ctx detached_world)) = None"
    by (simp add: detached_world_def)
  have n: "issue_number (ctx detached_world) = Some 7"
    by (simp add: detached_world_def)
  have e: "errorLoggingIssue detached_world = Some \<lparr> owner = ''o'', repo = ''r'', issue = 7 \<rparr>"
    by (simp add: detached_world_def closed_world_def)
  show ?thesis
    using guard_reads_payload_routing_reads_context [of detached_world] p n e by blast
qed

section \<open>Failure capture\<close>

text \<open>
  C4, as amended. For every error caught by the outer catch of \<open>run\<close>, the rendered
  report (message and stack, actor, handler id) is handed to the error-reporting channel,
  once, with the automated flag true; if that delivery returns and the telemetry sink,
  when one is configured, accepts the exception, the failure marker is set with the
  error's message; and nothing of this reaches the caller of \<open>run\<close>, whose outcome is
  that of the metrics emission.
\<close>

theorem caught_error_is_reported:
  assumes "\<not> refuses w"
    and "fst (run_try w a) = Some e"
  shows "reports_of (snd (run w a)) = [rendered a e]
    \<and> LogErrorToIssue (rendered a e) True (token a) \<in> set (snd (run w a))
    \<and> (logErrorToIssue w (rendered a e) True (token a) = None
        \<and> (\<forall>h. aiHandle w = Some h \<longrightarrow> sink_trackException h e = None)
        \<longrightarrow> failures_of (snd (run w a)) = [message e])
    \<and> fst (run w a) = fst (run_metrics w a)"
proof -
  have f: "failures_of (run_catch w a e) = [message e]"
    if "logErrorToIssue w (rendered a e) True (token a) = None"
      and "\<forall>h. aiHandle w = Some h \<longrightarrow> sink_trackException h e = None"
    using that by (simp add: run_catch_def error_def andThen_def split: option.splits)
  show ?thesis
    using assms run_catch_delivers [of a e w] f
    by (simp add: run_reports run_failures run_outcome run_trace)
qed

text \<open>
  A labeled event handled by a subclass that overrides nothing: the default hook's error
  is reported with message, stack, actor and id, and the failure marker carries its message.
\<close>

theorem caught_error_is_reported_witness:
  "\<not> refuses plain_world
   \<and> fst (run_try plain_world the_action) =
       Some (JsError ''not implemented'' (Some ''Error: not implemented at run'')
               ''Error: not implemented'')
   \<and> reports_of (snd (run plain_world the_action)) =
       [[CHR 0x0A] @ ''Message: not implemented'' @ [CHR 0x0A]
        @ ''Error: not implemented at run'' @ [CHR 0x0A, CHR 0x0A] @ ''Actor: bot-user''
        @ [CHR 0x0A, CHR 0x0A] @ ''ID: bot'' @ [CHR 0x0A]]
   \<and> failures_of (snd (run plain_world the_action)) = [''not implemented'']"
proof -
  let ?e = "JsError ''not implemented'' (Some ''Error: not implemented at run'')
               ''Error: not implemented''"
  have l: "logErrorToIssue plain_world (rendered the_action ?e) True (token the_action) = None"
    by (simp add: plain_world_def labeled_world_def)
  have h: "\<forall>h. aiHandle plain_world = Some h \<longrightarrow> sink_trackException h ?e = None"
    by (simp add: plain_world_def labeled_world_def accepting_sink_def)
  have r: "rendered the_action ?e =
        [CHR 0x0A] @ ''Message: not implemented'' @ [CHR 0x0A]
        @ ''Error: not implemented at run'' @ [CHR 0x0A, CHR 0x0A] @ ''Actor: bot-user''
        @ [CHR 0x0A, CHR 0x0A] @ ''ID: bot'' @ [CHR 0x0A]"
    by (simp add: rendered_def show_string_def the_action_def)
  have "reports_of (snd (run plain_world the_action)) = [rendered the_action ?e]
     \<and> failures_of (snd (run plain_world the_action)) = [message ?e]"
    using caught_error_is_reported [OF plain_not_refused plain_run_try] l h by blast
  then show ?thesis
    using plain_not_refused plain_run_try r by simp
qed

text \<open>
  C4 as stated fails when the delivery fails: the default hook's error is caught, the
  error-reporting channel throws, and the failure marker is never set.
\<close>

theorem failure_marker_skipped_counterexample:
  "\<not> refuses unreported_world
   \<and> fst (run_try unreported_world the_action) =
       Some (JsError ''not implemented'' (Some ''Error: not implemented at run'')
               ''Error: not implemented'')
   \<and> failures_of (snd (run unreported_world the_action)) = []"
proof -
  have c: "failures_of (run_catch unreported_world the_action e) = []" for e
    by (simp add: run_catch_def error_def unreported_world_def)
  show ?thesis
    using unreported_not_refused unreported_run_try c by (simp add: run_failures)
qed

text \<open>
  C5. When the \<^verbatim>\<open>try\<close> block of a run throws \<open>e\<close> and the delivery of its report
  throws, the catch clause writes the raw error to the log and nothing else: the calls of
  the run are those of the \<^verbatim>\<open>try\<close> block, the failed delivery, the log line, and then
  the metrics emission, whose outcome is the outcome of the run. The log line is the
  stack of \<open>e\<close> if it has a non-empty one, else its message if non-empty, else its
  stringified value.
\<close>

theorem failed_report_falls_back_to_log:
  assumes "\<not> refuses w"
    and "fst (run_try w a) = Some e"
    and "logErrorToIssue w (rendered a e) True (token a) = Some e'"
  shows "snd (run w a) =
           snd (run_try w a)
           @ [LogErrorToIssue (rendered a e) True (token a), SafeLog (raw_text e)]
           @ snd (run_metrics w a)
    \<and> fst (run w a) = fst (run_metrics w a)
    \<and> (\<forall>s. stack e = Some s \<and> s \<noteq> [] \<longrightarrow> raw_text e = s)
    \<and> ((stack e = None \<or> stack e = Some []) \<and> message e \<noteq> [] \<longrightarrow> raw_text e = message e)
    \<and> ((stack e = None \<or> stack e = Some []) \<and> message e = []
          \<longrightarrow> raw_text e = stringified e)"
proof -
  have c: "run_catch w a e =
             [LogErrorToIssue (rendered a e) True (token a), SafeLog (raw_text e)]"
    using assms(3) by (simp add: run_catch_def error_def)
  have r: "(\<forall>s. stack e = Some s \<and> s \<noteq> [] \<longrightarrow> raw_text e = s)
    \<and> ((stack e = None \<or> stack e = Some []) \<and> message e \<noteq> [] \<longrightarrow> raw_text e = message e)
    \<and> ((stack e = None \<or> stack e = Some []) \<and> message e = []
          \<longrightarrow> raw_text e = stringified e)"
    by (auto simp: raw_text_def)
  show ?thesis
    using assms(1,2) c r by (simp add: run_trace run_outcome)
qed

text \<open>
  The unhandled labeled event with the error-reporting channel down: the stack of the
  default hook's error is the one log line, and the run returns normally after the
  metrics emission.
\<close>

theorem failed_report_falls_back_witness:
  "\<not> refuses unreported_world
   \<and> fst (run_try unreported_world the_action) =
       Some (JsError ''not implemented'' (Some ''Error: not implemented at run'')
               ''Error: not implemented'')
   \<and> logged (snd (run unreported_world the_action)) = [''Error: not implemented at run'']
   \<and> length (metrics_of (snd (run unreported_world the_action))) = 4
   \<and> fst (run unreported_world the_action) = None"
proof -
  let ?e = "JsError ''not implemented'' (Some ''Error: not implemented at run'')
               ''Error: not implemented''"
  have l: "logErrorToIssue unreported_world (rendered the_action ?e) True (token the_action)
             = Some an_error"
    by (simp add: unreported_world_def)
  have m: "fst (run_metrics unreported_world the_action) = None
      \<and> length (metrics_of (snd (run_metrics unreported_world the_action))) = 4"
    by (simp add: run_metrics_def trackMetric_def unreported_world_def plain_world_def
        labeled_world_def accepting_sink_def)
  have "snd (run unreported_world the_action) =
           snd (run_try unreported_world the_action)
           @ [LogErrorToIssue (rendered the_action ?e) True (token the_action),
              SafeLog (raw_text ?e)]
           @ snd (run_metrics unreported_world the_action)
       \<and> fst (run unreported_world the_action) = fst (run_metrics unreported_world the_action)
       \<and> (\<forall>s. stack ?e = Some s \<and> s \<noteq> [] \<longrightarrow> raw_text ?e = s)"
    using failed_report_falls_back_to_log [OF unreported_not_refused unreported_run_try l]
    by blast
  then have "logged (snd (run unreported_world the_action)) = [''Error: not implemented at run'']
       \<and> metrics_of (snd (run unreported_world the_action)) =
           metrics_of (snd (run_metrics unreported_world the_action))
       \<and> fst (run unreported_world the_action) = fst (run_metrics unreported_world the_action)"
    by simp
  then show ?thesis
    using unreported_not_refused unreported_run_try m by simp
qed

section \<open>Acting identity\<close>

text \<open>
  C6. Whatever the identity provider does, construction succeeds once the token is read,
  and it queries the provider exactly once; \<open>run\<close> never queries it again, every read
  being of the settled value. When the provider fails, that value is the string
  \<^verbatim>\<open>unknown\<close>: it is the actor tag of every metric sample of the run and the Actor
  field of every failure report of the run.
\<close>

theorem identity_resolution_never_throws:
  assumes "getRequiredInput w ''token'' = Inr tok"
  shows "\<exists>a. fst (constructor w i) = Inr a
    \<and> identity_queries (snd (constructor w i)) = [tok]
    \<and> identity_queries (snd (run w a)) = []
    \<and> (\<forall>x. getAuthenticated w tok = Inl x \<longrightarrow>
          username a = ''unknown''
        \<and> (\<forall>m \<in> set (metrics_of (snd (run w a))). prop_user m = ''unknown'')
        \<and> (\<forall>r \<in> set (reports_of (snd (run w a))). \<exists>e. r =
              [CHR 0x0A] @ ''Message: '' @ message e @ [CHR 0x0A] @ show_string (stack e)
              @ [CHR 0x0A, CHR 0x0A] @ ''Actor: unknown''
              @ [CHR 0x0A, CHR 0x0A] @ ''ID: '' @ i @ [CHR 0x0A]))"
proof -
  define a where "a = \<lparr> action_id = i,
      username = (case getAuthenticated w tok of Inr v \<Rightarrow> v | Inl _ \<Rightarrow> ''unknown''),
      token = tok \<rparr>"
  have c: "constructor w i =
      (Inr a, [ConsoleLog (''::stop-commands::'' @ uuid w), GetAuthenticated tok])"
    using assms by (simp add: constructor_def a_def)
  have m: "\<forall>m \<in> set (metrics_of (snd (run w a))). prop_user m = username a"
  proof (cases "refuses w")
    case True
    then show ?thesis by (simp add: run_def)
  next
    case False
    then show ?thesis
      by (auto simp: run_metrics_of run_metrics_def trackMetric_def andThen_def properties_def
          split: option.splits sum.splits)
  qed
  have r: "\<forall>r \<in> set (reports_of (snd (run w a))). \<exists>e. r = rendered a e"
  proof (cases "refuses w")
    case True
    then show ?thesis by (simp add: run_def)
  next
    case False
    then show ?thesis by (auto simp: run_reports split: option.splits)
  qed
  have u: "username a = ''unknown''" if "getAuthenticated w tok = Inl x" for x
    using that by (simp add: a_def)
  have i: "action_id a = i" by (simp add: a_def)
  show ?thesis
  proof (intro exI [of _ a] conjI allI impI)
    show "fst (constructor w i) = Inr a" by (simp add: c)
    show "identity_queries (snd (constructor w i)) = [tok]" by (simp add: c)
    show "identity_queries (snd (run w a)) = []" by (rule run_identity)
    show "username a = ''unknown''" if "getAuthenticated w tok = Inl x" for x
      using that by (rule u)
    show "\<forall>m \<in> set (metrics_of (snd (run w a))). prop_user m = ''unknown''"
      if "getAuthenticated w tok = Inl x" for x
      using m u [OF that] by simp
    show "\<forall>r \<in> set (reports_of (snd (run w a))). \<exists>e. r =
              [CHR 0x0A] @ ''Message: '' @ message e @ [CHR 0x0A] @ show_string (stack e)
              @ [CHR 0x0A, CHR 0x0A] @ ''Actor: unknown''
              @ [CHR 0x0A, CHR 0x0A] @ ''ID: '' @ i @ [CHR 0x0A]"
      if "getAuthenticated w tok = Inl x" for x
    proof
      fix r assume "r \<in> set (reports_of (snd (run w a)))"
      with r obtain e where "r = rendered a e" by blast
      then show "\<exists>e. r =
              [CHR 0x0A] @ ''Message: '' @ message e @ [CHR 0x0A] @ show_string (stack e)
              @ [CHR 0x0A, CHR 0x0A] @ ''Actor: unknown''
              @ [CHR 0x0A, CHR 0x0A] @ ''ID: '' @ i @ [CHR 0x0A]"
        using u [OF that] i by (auto simp: rendered_def intro!: exI [of _ e])
    qed
  qed
qed

text \<open>
  The unhandled labeled event when the provider fails: the object is constructed with
  the name \<^verbatim>\<open>unknown\<close>, and the run has four metric samples and one report to tag.
\<close>

theorem identity_resolution_witness:
  "getRequiredInput anonymous_world ''token'' = Inr ''secret''
   \<and> getAuthenticated anonymous_world ''secret'' = Inl an_error
   \<and> fst (constructor anonymous_world ''bot'') = Inr anonymous_action
   \<and> username anonymous_action = ''unknown''
   \<and> length (metrics_of (snd (run anonymous_world anonymous_action))) = 4
   \<and> length (reports_of (snd (run anonymous_world anonymous_action))) = 1
   \<and> map prop_user (metrics_of (snd (run anonymous_world anonymous_action))) =
       [''unknown'', ''unknown'', ''unknown'', ''unknown'']"
proof -
  have t: "getRequiredInput anonymous_world ''token'' = Inr ''secret''"
    by (simp add: anonymous_world_def plain_world_def labeled_world_def)
  have g: "getAuthenticated anonymous_world ''secret'' = Inl an_error"
    by (simp add: anonymous_world_def)
  have c: "fst (constructor anonymous_world ''bot'') = Inr anonymous_action"
    by (simp add: anonymous_constructed)
  have l: "length (metrics_of (snd (run_metrics anonymous_world anonymous_action))) = 4"
    by (simp add: run_metrics_def trackMetric_def anonymous_world_def plain_world_def
        labeled_world_def accepting_sink_def)
  have k: "length (reports_of (snd (run anonymous_world anonymous_action))) = 1"
    by (simp add: run_reports [OF anonymous_not_refused] anonymous_run_try)
  from identity_resolution_never_throws [OF t, of "''bot''"] c g
  have "\<forall>m \<in> set (metrics_of (snd (run anonymous_world anonymous_action))).
         prop_user m = ''unknown''"
    by auto
  then have "map prop_user (metrics_of (snd (run anonymous_world anonymous_action))) =
      map (\<lambda>_. ''unknown'') (metrics_of (snd (run anonymous_world anonymous_action)))"
    by simp
  then have "map prop_user (metrics_of (snd (run anonymous_world anonymous_action))) =
      replicate 4 ''unknown''"
    using l by (simp add: map_replicate_const run_metrics_of [OF anonymous_not_refused])
  then show ?thesis
    using t g c l k
    by (simp add: anonymous_action_def run_metrics_of [OF anonymous_not_refused] numeral_eq_Suc)
qed

section \<open>Telemetry\<close>

text \<open>
  C9, as amended. \<open>trackMetric\<close> does nothing when no telemetry sink is configured. With
  a sink it hands over the one sample, enriched with repository, issue, handler id and
  user, and its outcome is the outcome of the sink's call: it returns when the sink
  returns and throws what the sink throws. Thrown during the metrics emission of a run
  that passed the self-protection check, on any of the four samples, that error is the
  outcome of \<open>run\<close>, and no later sample is sent.
\<close>

theorem trackMetric_forwards:
  "(aiHandle w = None \<longrightarrow> trackMetric w a t = (None, []))
   \<and> (\<forall>h. aiHandle w = Some h \<longrightarrow>
          trackMetric w a t =
            (sink_trackMetric h
               \<lparr> metric_name = metric_name t, metric_value = metric_value t,
                 prop_repo = owner (ctx_repo (ctx w)) @ ''/'' @ repo (ctx_repo (ctx w)),
                 prop_issue = show_number (issue_number (ctx w)),
                 prop_id = action_id a, prop_user = username a \<rparr>,
             [TrackMetric
               \<lparr> metric_name = metric_name t, metric_value = metric_value t,
                 prop_repo = owner (ctx_repo (ctx w)) @ ''/'' @ repo (ctx_repo (ctx w)),
                 prop_issue = show_number (issue_number (ctx w)),
                 prop_id = action_id a, prop_user = username a \<rparr>]))
   \<and> (\<not> refuses w \<longrightarrow>
        (\<forall>e. fst (trackMetric w a
                    \<lparr> metric_name = ''octokit_request_count'',
                      metric_value = getNumRequests w \<rparr>) = Some e
           \<longrightarrow> fst (run w a) = Some e
             \<and> map metric_name (metrics_of (snd (run w a))) = [''octokit_request_count''])
      \<and> (\<forall>u e. fst (trackMetric w a
                      \<lparr> metric_name = ''octokit_request_count'',
                        metric_value = getNumRequests w \<rparr>) = None
             \<and> getRateLimit w (token a) = Inr u
             \<and> fst (trackMetric w a \<lparr> metric_name = ''usage_core'', metric_value = core u \<rparr>)
                 = Some e
           \<longrightarrow> fst (run w a) = Some e
             \<and> map metric_name (metrics_of (snd (run w a))) =
                 [''octokit_request_count'', ''usage_core''])
      \<and> (\<forall>u e. fst (trackMetric w a
                      \<lparr> metric_name = ''octokit_request_count'',
                        metric_value = getNumRequests w \<rparr>) = None
             \<and> getRateLimit w (token a) = Inr u
             \<and> fst (trackMetric w a \<lparr> metric_name = ''usage_core'', metric_value = core u \<rparr>)
                 = None
             \<and> fst (trackMetric w a
                      \<lparr> metric_name = ''usage_graphql'', metric_value = graphql u \<rparr>) = Some e
           \<longrightarrow> fst (run w a) = Some e
             \<and> map metric_name (metrics_of (snd (run w a))) =
                 [''octokit_request_count'', ''usage_core'', ''usage_graphql''])
      \<and> (\<forall>u e. fst (trackMetric w a
                      \<lparr> metric_name = ''octokit_request_count'',
                        metric_value = getNumRequests w \<rparr>) = None
             \<and> getRateLimit w (token a) = Inr u
             \<and> fst (trackMetric w a \<lparr> metric_name = ''usage_core'', metric_value = core u \<rparr>)
                 = None
             \<and> fst (trackMetric w a
                      \<lparr> metric_name = ''usage_graphql'', metric_value = graphql u \<rparr>) = None
             \<and> fst (trackMetric w a
                      \<lparr> metric_name = ''usage_search'', metric_value = search u \<rparr>) = Some e
           \<longrightarrow> fst (run w a) = Some e
             \<and> map metric_name (metrics_of (snd (run w a))) =
                 [''octokit_request_count'', ''usage_core'', ''usage_graphql'',
                  ''usage_search'']))"
proof -
  have 1: "aiHandle w = None \<longrightarrow> trackMetric w a t = (None, [])"
    by (simp add: trackMetric_def)
  have 2: "\<forall>h. aiHandle w = Some h \<longrightarrow>
          trackMetric w a t =
            (sink_trackMetric h
               \<lparr> metric_name = metric_name t, metric_value = metric_value t,
                 prop_repo = owner (ctx_repo (ctx w)) @ ''/'' @ repo (ctx_repo (ctx w)),
                 prop_issue = show_number (issue_number (ctx w)),
                 prop_id = action_id a, prop_user = username a \<rparr>,
             [TrackMetric
               \<lparr> metric_name = metric_name t, metric_value = metric_value t,
                 prop_repo = owner (ctx_repo (ctx w)) @ ''/'' @ repo (ctx_repo (ctx w)),
                 prop_issue = show_number (issue_number (ctx w)),
                 prop_id = action_id a, prop_user = username a \<rparr>])"
    by (simp add: trackMetric_def properties_def)
  have sent: "map metric_name (metrics_of (snd (trackMetric w a s))) = [metric_name s]"
    if "fst (trackMetric w a s) = Some e" for s e
    using that by (auto simp: trackMetric_def properties_def split: option.splits)
  have sent': "map metric_name (metrics_of (snd (trackMetric w a s))) = [metric_name s]"
    if "fst (trackMetric w a s) = None" "fst (trackMetric w a s') = Some e" for s s' e
    using that by (auto simp: trackMetric_def properties_def split: option.splits)
  have 3: "fst (run w a) = Some e
      \<and> map metric_name (metrics_of (snd (run w a))) = [''octokit_request_count'']"
    if "\<not> refuses w"
      and "fst (trackMetric w a
                 \<lparr> metric_name = ''octokit_request_count'',
                   metric_value = getNumRequests w \<rparr>) = Some e"
    for e
    using that sent [OF that(2)]
    by (simp add: run_outcome run_metrics_of run_metrics_def andThen_def)
  have 4: "fst (run w a) = Some e
      \<and> map metric_name (metrics_of (snd (run w a))) =
          [''octokit_request_count'', ''usage_core'']"
    if "\<not> refuses w"
      and "fst (trackMetric w a
                 \<lparr> metric_name = ''octokit_request_count'',
                   metric_value = getNumRequests w \<rparr>) = None"
      and "getRateLimit w (token a) = Inr u"
      and "fst (trackMetric w a \<lparr> metric_name = ''usage_core'', metric_value = core u \<rparr>)
             = Some e"
    for u e
    using that sent' [OF that(2) that(4)] sent [OF that(4)]
    by (simp add: run_outcome run_metrics_of run_metrics_def andThen_def)
  have 5: "fst (run w a) = Some e
      \<and> map metric_name (metrics_of (snd (run w a))) =
          [''octokit_request_count'', ''usage_core'', ''usage_graphql'']"
    if "\<not> refuses w"
      and "fst (trackMetric w a
                 \<lparr> metric_name = ''octokit_request_count'',
                   metric_value = getNumRequests w \<rparr>) = None"
      and "getRateLimit w (token a) = Inr u"
      and "fst (trackMetric w a \<lparr> metric_name = ''usage_core'', metric_value = core u \<rparr>)
             = None"
      and "fst (trackMetric w a \<lparr> metric_name = ''usage_graphql'', metric_value = graphql u \<rparr>)
             = Some e"
    for u e
    using that sent' [OF that(2) that(5)] sent' [OF that(4) that(5)] sent [OF that(5)]
    by (simp add: run_outcome run_metrics_of run_metrics_def andThen_def)
  have 6: "fst (run w a) = Some e
      \<and> map metric_name (metrics_of (snd (run w a))) =
          [''octokit_request_count'', ''usage_core'', ''usage_graphql'', ''usage_search'']"
    if "\<not> refuses w"
      and "fst (trackMetric w a
                 \<lparr> metric_name = ''octokit_request_count'',
                   metric_value = getNumRequests w \<rparr>) = None"
      and "getRateLimit w (token a) = Inr u"
      and "fst (trackMetric w a \<lparr> metric_name = ''usage_core'', metric_value = core u \<rparr>)
             = None"
      and "fst (trackMetric w a \<lparr> metric_name = ''usage_graphql'', metric_value = graphql u \<rparr>)
             = None"
      and "fst (trackMetric w a \<lparr> metric_name = ''usage_search'', metric_value = search u \<rparr>)
             = Some e"
    for u e
    using that sent' [OF that(2) that(6)] sent' [OF that(4) that(6)]
      sent' [OF that(5) that(6)] sent [OF that(6)]
    by (simp add: run_outcome run_metrics_of run_metrics_def andThen_def)
  from 1 2 3 4 5 6 show ?thesis by blast
qed

text \<open>
  Without a sink nothing happens; an accepting sink gets the sample tagged
  \<^verbatim>\<open>o/r\<close>, 42, bot, bot-user; a sink that throws on the first sample, and one that
  throws on the graphql sample only, make the run throw.
\<close>

theorem trackMetric_forwards_witness:
  "aiHandle (labeled_world \<lparr> aiHandle := None \<rparr>) = None
   \<and> trackMetric (labeled_world \<lparr> aiHandle := None \<rparr>) the_action
       \<lparr> metric_name = ''usage_core'', metric_value = 1 \<rparr> = (None, [])
   \<and> aiHandle labeled_world = Some accepting_sink
   \<and> trackMetric labeled_world the_action \<lparr> metric_name = ''usage_core'', metric_value = 1 \<rparr>
       = (None, [TrackMetric \<lparr> metric_name = ''usage_core'', metric_value = 1,
                               prop_repo = ''o/r'', prop_issue = ''42'', prop_id = ''bot'',
                               prop_user = ''bot-user'' \<rparr>])
   \<and> \<not> refuses sink_down_world
   \<and> fst (run sink_down_world the_action) = Some an_error
   \<and> map metric_name (metrics_of (snd (run sink_down_world the_action))) =
       [''octokit_request_count'']
   \<and> \<not> refuses late_world
   \<and> fst (run late_world the_action) = Some an_error
   \<and> map metric_name (metrics_of (snd (run late_world the_action))) =
       [''octokit_request_count'', ''usage_core'', ''usage_graphql'']"
proof -
  let ?t = "\<lparr> metric_name = ''usage_core'', metric_value = 1 \<rparr>"
  let ?u = "\<lparr> core = 1 / 4, graphql = 0, search = 1 / 2 \<rparr>"
  have n: "aiHandle (labeled_world \<lparr> aiHandle := None \<rparr>) = None"
    by simp
  have s: "aiHandle labeled_world = Some accepting_sink"
    by (simp add: labeled_world_def)
  have i: "show_number (issue_number (ctx labeled_world)) = ''42''"
    by (simp add: show_number_def show_nat_42 labeled_world_def)
  have a: "trackMetric (labeled_world \<lparr> aiHandle := None \<rparr>) the_action ?t = (None, [])"
    using trackMetric_forwards [of "labeled_world \<lparr> aiHandle := None \<rparr>" the_action ?t] n
    by blast
  have "trackMetric labeled_world the_action ?t =
      (sink_trackMetric accepting_sink
         \<lparr> metric_name = metric_name ?t, metric_value = metric_value ?t,
           prop_repo = owner (ctx_repo (ctx labeled_world)) @ ''/''
                       @ repo (ctx_repo (ctx labeled_world)),
           prop_issue = show_number (issue_number (ctx labeled_world)),
           prop_id = action_id the_action, prop_user = username the_action \<rparr>,
       [TrackMetric
         \<lparr> metric_name = metric_name ?t, metric_value = metric_value ?t,
           prop_repo = owner (ctx_repo (ctx labeled_world)) @ ''/''
                       @ repo (ctx_repo (ctx labeled_world)),
           prop_issue = show_number (issue_number (ctx labeled_world)),
           prop_id = action_id the_action, prop_user = username the_action \<rparr>])"
    using trackMetric_forwards [of labeled_world the_action ?t] s by blast
  then have b: "trackMetric labeled_world the_action ?t =
       (None, [TrackMetric \<lparr> metric_name = ''usage_core'', metric_value = 1,
                               prop_repo = ''o/r'', prop_issue = ''42'', prop_id = ''bot'',
                               prop_user = ''bot-user'' \<rparr>])"
    by (simp add: i) (simp add: labeled_world_def the_action_def accepting_sink_def)
  have g: "\<not> refuses sink_down_world"
    by (simp add: refuses_def sink_down_world_def labeled_world_def)
  have d: "fst (trackMetric sink_down_world the_action
                 \<lparr> metric_name = ''octokit_request_count'',
                   metric_value = getNumRequests sink_down_world \<rparr>) = Some an_error"
    by (simp add: trackMetric_def sink_down_world_def labeled_world_def failing_sink_def)
  have c: "fst (run sink_down_world the_action) = Some an_error
      \<and> map metric_name (metrics_of (snd (run sink_down_world the_action))) =
          [''octokit_request_count'']"
    using trackMetric_forwards [of sink_down_world the_action ?t] g d by blast
  have g': "\<not> refuses late_world"
    by (simp add: refuses_def late_world_def labeled_world_def)
  have l1: "fst (trackMetric late_world the_action
                 \<lparr> metric_name = ''octokit_request_count'',
                   metric_value = getNumRequests late_world \<rparr>) = None"
    by (simp add: trackMetric_def properties_def late_world_def late_sink_def)
  have l2: "getRateLimit late_world (token the_action) = Inr ?u"
    by (simp add: late_world_def labeled_world_def)
  have l3: "fst (trackMetric late_world the_action
                 \<lparr> metric_name = ''usage_core'', metric_value = core ?u \<rparr>) = None"
    by (simp add: trackMetric_def properties_def late_world_def late_sink_def)
  have l4: "fst (trackMetric late_world the_action
                 \<lparr> metric_name = ''usage_graphql'', metric_value = graphql ?u \<rparr>)
              = Some an_error"
    by (simp add: trackMetric_def properties_def late_world_def late_sink_def)
  have e: "fst (run late_world the_action) = Some an_error
      \<and> map metric_name (metrics_of (snd (run late_world the_action))) =
          [''octokit_request_count'', ''usage_core'', ''usage_graphql'']"
    using trackMetric_forwards [of late_world the_action ?t] g' l1 l2 l3 l4 by blast
  from n a s b g c g' e show ?thesis by blast
qed

text \<open>
  C9 as stated fails: with a sink whose metric call throws, \<open>trackMetric\<close> throws, and
  so does the run that called it.
\<close>

theorem trackMetric_throws_counterexample:
  "aiHandle sink_down_world = Some failing_sink
   \<and> fst (trackMetric sink_down_world the_action
            \<lparr> metric_name = ''octokit_request_count'', metric_value = 3 \<rparr>) = Some an_error
   \<and> \<not> refuses sink_down_world
   \<and> hook_calls (snd (run sink_down_world the_action)) =
       [OnLabeled (OctoKitIssue ''secret'' \<lparr> owner = ''o'', repo = ''r'' \<rparr> 42 False) ''bug'']
   \<and> fst (run sink_down_world the_action) = Some an_error"
proof -
  have g: "\<not> refuses sink_down_world"
    by (simp add: refuses_def sink_down_world_def labeled_world_def)
  have h: "hook_calls (snd (run_try sink_down_world the_action)) =
       [OnLabeled (OctoKitIssue ''secret'' \<lparr> owner = ''o'', repo = ''r'' \<rparr> 42 False) ''bug'']"
    by (simp add: run_try_def truthy_number_def invoke_def Let_def sink_down_world_def
        labeled_world_def)
  have m: "fst (run_metrics sink_down_world the_action) = Some an_error"
    by (simp add: run_metrics_def trackMetric_def sink_down_world_def labeled_world_def
        failing_sink_def)
  have t: "aiHandle sink_down_world = Some failing_sink
   \<and> fst (trackMetric sink_down_world the_action
            \<lparr> metric_name = ''octokit_request_count'', metric_value = 3 \<rparr>) = Some an_error"
    by (simp add: trackMetric_def sink_down_world_def labeled_world_def failing_sink_def)
  show ?thesis
    using g h m t by (simp add: run_outcome run_hooks)
qed

end
